theory Spec2Isabelle
  imports Main "HOL-Library.AList" "HOL-Library.Sublist" "HOL-Library.Multiset"
begin

section \<open>The entrance randomizer of wwrando (randomizers/entrances.py)\<close>

subsection \<open>Data model\<close>

text \<open>
  \<^verbatim>\<open>ZoneEntrance\<close> and \<^verbatim>\<open>ZoneExit\<close> are frozen dataclasses: values compared field by
  field. Optional fields (default \<^verbatim>\<open>None\<close>) are options. The fields of \<^verbatim>\<open>ZoneExit\<close> that
  share a name with a field of \<^verbatim>\<open>ZoneEntrance\<close> carry the prefix \<open>exit_\<close>.
\<close>

record ZoneEntrance =
  stage_name :: string
  room_num :: int
  scls_exit_index :: int
  spawn_id :: int
  entrance_name :: string
  island_name :: "string option"
  warp_out_stage_name :: "string option"
  warp_out_room_num :: "int option"
  warp_out_spawn_id :: "int option"

definition is_nested :: "ZoneEntrance \<Rightarrow> bool" where
  "is_nested e = (island_name e = None)"

record ZoneExit =
  exit_stage_name :: string
  exit_room_num :: int
  exit_scls_exit_index :: int
  exit_spawn_id :: int
  zone_name :: string
  unique_name :: string
  boss_stage_name :: "string option"

definition mk_entrance ::
  "string \<Rightarrow> int \<Rightarrow> int \<Rightarrow> int \<Rightarrow> string \<Rightarrow> string \<Rightarrow> string \<Rightarrow> int \<Rightarrow> int \<Rightarrow> ZoneEntrance" where
  "mk_entrance st rn sc sp nm isle ws wr wsp =
     \<lparr>stage_name = st, room_num = rn, scls_exit_index = sc, spawn_id = sp,
      entrance_name = nm, island_name = Some isle, warp_out_stage_name = Some ws,
      warp_out_room_num = Some wr, warp_out_spawn_id = Some wsp\<rparr>"

definition mk_nested_entrance :: "string \<Rightarrow> int \<Rightarrow> int \<Rightarrow> int \<Rightarrow> string \<Rightarrow> ZoneEntrance" where
  "mk_nested_entrance st rn sc sp nm =
     \<lparr>stage_name = st, room_num = rn, scls_exit_index = sc, spawn_id = sp,
      entrance_name = nm, island_name = None, warp_out_stage_name = None,
      warp_out_room_num = None, warp_out_spawn_id = None\<rparr>"

definition mk_exit :: "string \<Rightarrow> int \<Rightarrow> int \<Rightarrow> int \<Rightarrow> string \<Rightarrow> string \<Rightarrow> string option \<Rightarrow> ZoneExit" where
  "mk_exit st rn sc sp zn un bs =
     \<lparr>exit_stage_name = st, exit_room_num = rn, exit_scls_exit_index = sc, exit_spawn_id = sp,
      zone_name = zn, unique_name = un, boss_stage_name = bs\<rparr>"

subsection \<open>The catalog\<close>

definition DUNGEON_ENTRANCES :: "ZoneEntrance list" where
  "DUNGEON_ENTRANCES = [
     mk_entrance ''Adanmae'' 0 2 2 ''Dungeon Entrance on Dragon Roost Island'' ''Dragon Roost Island'' ''sea'' 13 211,
     mk_entrance ''sea'' 41 6 6 ''Dungeon Entrance in Forest Haven Sector'' ''Forest Haven'' ''Omori'' 0 215,
     mk_entrance ''sea'' 26 0 2 ''Dungeon Entrance in Tower of the Gods Sector'' ''Tower of the Gods'' ''sea'' 26 1,
     mk_entrance ''Edaichi'' 0 0 1 ''Dungeon Entrance on Headstone Island'' ''Headstone Island'' ''sea'' 45 229,
     mk_entrance ''Ekaze'' 0 0 1 ''Dungeon Entrance on Gale Isle'' ''Gale Isle'' ''sea'' 4 232]"

definition BOSS_ENTRANCES :: "ZoneEntrance list" where
  "BOSS_ENTRANCES = [
     mk_nested_entrance ''M_NewD2'' 10 1 27 ''Boss Entrance in Dragon Roost Cavern'',
     mk_nested_entrance ''kindan'' 16 0 1 ''Boss Entrance in Forbidden Woods'',
     mk_nested_entrance ''Siren'' 18 0 27 ''Boss Entrance in Tower of the Gods'',
     mk_nested_entrance ''M_Dai'' 15 0 27 ''Boss Entrance in Earth Temple'',
     mk_nested_entrance ''kaze'' 12 0 27 ''Boss Entrance in Wind Temple'']"

definition SECRET_CAVE_ENTRANCES :: "ZoneEntrance list" where
  "SECRET_CAVE_ENTRANCES = [
     mk_entrance ''sea'' 44 8 10 ''Secret Cave Entrance on Outset Island'' ''Outset Island'' ''sea'' 44 10,
     mk_entrance ''sea'' 13 2 5 ''Secret Cave Entrance on Dragon Roost Island'' ''Dragon Roost Island'' ''sea'' 13 5,
     mk_entrance ''sea'' 20 0 0 ''Secret Cave Entrance on Fire Mountain'' ''Fire Mountain'' ''sea'' 20 0,
     mk_entrance ''sea'' 40 0 0 ''Secret Cave Entrance on Ice Ring Isle'' ''Ice Ring Isle'' ''sea'' 40 0,
     mk_entrance ''Abesso'' 0 1 1 ''Secret Cave Entrance on Private Oasis'' ''Private Oasis'' ''Abesso'' 0 1,
     mk_entrance ''sea'' 29 0 5 ''Secret Cave Entrance on Needle Rock Isle'' ''Needle Rock Isle'' ''sea'' 29 5,
     mk_entrance ''sea'' 47 1 5 ''Secret Cave Entrance on Angular Isles'' ''Angular Isles'' ''sea'' 47 5,
     mk_entrance ''sea'' 48 0 5 ''Secret Cave Entrance on Boating Course'' ''Boating Course'' ''sea'' 48 5,
     mk_entrance ''sea'' 31 0 1 ''Secret Cave Entrance on Stone Watcher Island'' ''Stone Watcher Island'' ''sea'' 31 1,
     mk_entrance ''sea'' 7 0 1 ''Secret Cave Entrance on Overlook Island'' ''Overlook Island'' ''sea'' 7 1,
     mk_entrance ''sea'' 35 0 1 (''Secret Cave Entrance on Bird'' @ [CHR 0x27] @ ''s Peak Rock'')
       (''Bird'' @ [CHR 0x27] @ ''s Peak Rock'') ''sea'' 35 1,
     mk_entrance ''sea'' 12 0 1 ''Secret Cave Entrance on Pawprint Isle'' ''Pawprint Isle'' ''sea'' 12 1,
     mk_entrance ''sea'' 12 1 5 ''Secret Cave Entrance on Pawprint Isle Side Isle'' ''Pawprint Isle'' ''sea'' 12 5,
     mk_entrance ''sea'' 36 0 1 ''Secret Cave Entrance on Diamond Steppe Island'' ''Diamond Steppe Island'' ''sea'' 36 1,
     mk_entrance ''sea'' 34 0 1 ''Secret Cave Entrance on Bomb Island'' ''Bomb Island'' ''sea'' 34 1,
     mk_entrance ''sea'' 16 0 1 ''Secret Cave Entrance on Rock Spire Isle'' ''Rock Spire Isle'' ''sea'' 16 1,
     mk_entrance ''sea'' 38 0 5 ''Secret Cave Entrance on Shark Island'' ''Shark Island'' ''sea'' 38 5,
     mk_entrance ''sea'' 42 0 2 ''Secret Cave Entrance on Cliff Plateau Isles'' ''Cliff Plateau Isles'' ''sea'' 42 2,
     mk_entrance ''sea'' 43 0 5 ''Secret Cave Entrance on Horseshoe Island'' ''Horseshoe Island'' ''sea'' 43 5,
     mk_entrance ''sea'' 2 0 1 ''Secret Cave Entrance on Star Island'' ''Star Island'' ''sea'' 2 1]"

definition ALL_ENTRANCES :: "ZoneEntrance list" where
  "ALL_ENTRANCES = DUNGEON_ENTRANCES @ BOSS_ENTRANCES @ SECRET_CAVE_ENTRANCES"

definition DUNGEON_EXITS :: "ZoneExit list" where
  "DUNGEON_EXITS = [
     mk_exit ''M_NewD2'' 0 0 0 ''Dragon Roost Cavern'' ''Dragon Roost Cavern'' (Some ''M_DragB''),
     mk_exit ''kindan'' 0 0 0 ''Forbidden Woods'' ''Forbidden Woods'' (Some ''kinBOSS''),
     mk_exit ''Siren'' 0 1 0 ''Tower of the Gods'' ''Tower of the Gods'' (Some ''SirenB''),
     mk_exit ''M_Dai'' 0 0 0 ''Earth Temple'' ''Earth Temple'' (Some ''M_DaiB''),
     mk_exit ''kaze'' 15 0 15 ''Wind Temple'' ''Wind Temple'' (Some ''kazeB'')]"

definition BOSS_EXITS :: "ZoneExit list" where
  "BOSS_EXITS = [
     mk_exit ''M_DragB'' 0 0 0 ''Gohma Boss Arena'' ''Gohma Boss Arena'' None,
     mk_exit ''kinBOSS'' 0 0 0 ''Kalle Demos Boss Arena'' ''Kalle Demos Boss Arena'' None,
     mk_exit ''SirenB'' 0 0 0 ''Gohdan Boss Arena'' ''Gohdan Boss Arena'' None,
     mk_exit ''M_DaiB'' 0 0 0 ''Jalhalla Boss Arena'' ''Jalhalla Boss Arena'' None,
     mk_exit ''kazeB'' 0 0 0 ''Molgera Boss Arena'' ''Molgera Boss Arena'' None]"

definition SECRET_CAVE_EXITS :: "ZoneExit list" where
  "SECRET_CAVE_EXITS = [
     mk_exit ''Cave09'' 0 1 0 ''Outset Island'' ''Savage Labyrinth'' None,
     mk_exit ''TF_06'' 0 0 0 ''Dragon Roost Island'' ''Dragon Roost Island Secret Cave'' None,
     mk_exit ''MiniKaz'' 0 0 0 ''Fire Mountain'' ''Fire Mountain Secret Cave'' None,
     mk_exit ''MiniHyo'' 0 0 0 ''Ice Ring Isle'' ''Ice Ring Isle Secret Cave'' None,
     mk_exit ''TF_04'' 0 0 0 ''Private Oasis'' ''Cabana Labyrinth'' None,
     mk_exit ''SubD42'' 0 0 0 ''Needle Rock Isle'' ''Needle Rock Isle Secret Cave'' None,
     mk_exit ''SubD43'' 0 0 0 ''Angular Isles'' ''Angular Isles Secret Cave'' None,
     mk_exit ''SubD71'' 0 0 0 ''Boating Course'' ''Boating Course Secret Cave'' None,
     mk_exit ''TF_01'' 0 0 0 ''Stone Watcher Island'' ''Stone Watcher Island Secret Cave'' None,
     mk_exit ''TF_02'' 0 0 0 ''Overlook Island'' ''Overlook Island Secret Cave'' None,
     mk_exit ''TF_03'' 0 0 0 (''Bird'' @ [CHR 0x27] @ ''s Peak Rock'')
       (''Bird'' @ [CHR 0x27] @ ''s Peak Rock Secret Cave'') None,
     mk_exit ''TyuTyu'' 0 0 0 ''Pawprint Isle'' ''Pawprint Isle Chuchu Cave'' None,
     mk_exit ''Cave07'' 0 0 0 ''Pawprint Isle Side Isle'' ''Pawprint Isle Wizzrobe Cave'' None,
     mk_exit ''WarpD'' 0 0 0 ''Diamond Steppe Island'' ''Diamond Steppe Island Warp Maze Cave'' None,
     mk_exit ''Cave01'' 0 0 0 ''Bomb Island'' ''Bomb Island Secret Cave'' None,
     mk_exit ''Cave04'' 0 0 0 ''Rock Spire Isle'' ''Rock Spire Isle Secret Cave'' None,
     mk_exit ''ITest63'' 0 0 0 ''Shark Island'' ''Shark Island Secret Cave'' None,
     mk_exit ''Cave03'' 0 0 0 ''Cliff Plateau Isles'' ''Cliff Plateau Isles Secret Cave'' None,
     mk_exit ''Cave05'' 0 0 0 ''Horseshoe Island'' ''Horseshoe Island Secret Cave'' None,
     mk_exit ''Cave02'' 0 0 0 ''Star Island'' ''Star Island Secret Cave'' None]"

definition ALL_EXITS :: "ZoneExit list" where
  "ALL_EXITS = DUNGEON_EXITS @ BOSS_EXITS @ SECRET_CAVE_EXITS"

definition DUNGEON_ENTRANCE_NAMES_WITH_NO_REQUIREMENTS :: "string list" where
  "DUNGEON_ENTRANCE_NAMES_WITH_NO_REQUIREMENTS = [''Dungeon Entrance on Dragon Roost Island'']"

definition SECRET_CAVE_ENTRANCE_NAMES_WITH_NO_REQUIREMENTS :: "string list" where
  "SECRET_CAVE_ENTRANCE_NAMES_WITH_NO_REQUIREMENTS =
     [''Secret Cave Entrance on Pawprint Isle'', ''Secret Cave Entrance on Cliff Plateau Isles'']"

definition DUNGEON_EXIT_NAMES_WITH_NO_REQUIREMENTS :: "string list" where
  "DUNGEON_EXIT_NAMES_WITH_NO_REQUIREMENTS = [''Dragon Roost Cavern'']"

definition PUZZLE_SECRET_CAVE_EXIT_NAMES_WITH_NO_REQUIREMENTS :: "string list" where
  "PUZZLE_SECRET_CAVE_EXIT_NAMES_WITH_NO_REQUIREMENTS =
     [''Pawprint Isle Chuchu Cave'', ''Ice Ring Isle Secret Cave'',
      ''Bird'' @ [CHR 0x27] @ ''s Peak Rock Secret Cave'',
      ''Diamond Steppe Island Warp Maze Cave'']"

definition COMBAT_SECRET_CAVE_EXIT_NAMES_WITH_NO_REQUIREMENTS :: "string list" where
  "COMBAT_SECRET_CAVE_EXIT_NAMES_WITH_NO_REQUIREMENTS = [''Rock Spire Isle Secret Cave'']"

definition ITEM_LOCATION_NAME_TO_EXIT_ZONE_NAME_OVERRIDES :: "(string \<times> string) list" where
  "ITEM_LOCATION_NAME_TO_EXIT_ZONE_NAME_OVERRIDES = [
     (''Pawprint Isle - Wizzrobe Cave'', ''Pawprint Isle Side Isle''),
     (''Dragon Roost Cavern - Gohma Heart Container'', ''Gohma Boss Arena''),
     (''Forbidden Woods - Kalle Demos Heart Container'', ''Kalle Demos Boss Arena''),
     (''Tower of the Gods - Gohdan Heart Container'', ''Gohdan Boss Arena''),
     (''Earth Temple - Jalhalla Heart Container'', ''Jalhalla Boss Arena''),
     (''Wind Temple - Molgera Heart Container'', ''Molgera Boss Arena'')]"

subsection \<open>Errors\<close>

text \<open>
  Every exception the modelled code can raise is a value. \<open>NoValidExits\<close> is the
  \<^verbatim>\<open>Exception("No valid exits to place for entrance: ...")\<close> of the assignment loop and
  \<open>InfiniteLoop\<close> the \<^verbatim>\<open>Exception("Entrances are in an infinite loop: ...")\<close> of the chain
  walk; the others are Python's built-in exceptions.
\<close>

datatype error =
    NoValidExits string
  | InfiniteLoop "string list"
  | AssertionError
  | StopIteration
  | KeyError
  | IndexError
  | ValueError
  | AttributeError
  | TypeError

subsection \<open>Resolving chains of nested entrances\<close>

definition get_dungeon_start_exit_leading_to_nested_entrance :: "ZoneEntrance \<Rightarrow> error + ZoneExit" where
  "get_dungeon_start_exit_leading_to_nested_entrance zone_entrance =
     (if \<not> prefix ''Boss Entrance in '' (entrance_name zone_entrance) then Inl AssertionError
      else let dungeon_name = drop (length ''Boss Entrance in '') (entrance_name zone_entrance) in
        case find (\<lambda>ex. unique_name ex = dungeon_name) DUNGEON_EXITS of
          None \<Rightarrow> Inl StopIteration
        | Some dungeon_start_exit \<Rightarrow> Inr dungeon_start_exit)"

text \<open>
  The \<^verbatim>\<open>while zone_entrance.is_nested\<close> loop of
  \<^verbatim>\<open>get_all_entrances_on_path_to_entrance\<close>, with the list \<^verbatim>\<open>seen_entrances\<close> as
  accumulator. The dictionary \<^verbatim>\<open>done_exits_to_entrances\<close> is an association list in
  insertion order. The result \<open>Inr None\<close> is Python's \<^verbatim>\<open>return None\<close>.
\<close>

function entrances_on_path_loop ::
  "(ZoneExit \<times> ZoneEntrance) list \<Rightarrow> ZoneEntrance \<Rightarrow> ZoneEntrance list
     \<Rightarrow> error + ZoneEntrance list option" where
  "entrances_on_path_loop done_exits_to_entrances zone_entrance seen_entrances =
     (if is_nested zone_entrance then
        if zone_entrance \<in> set seen_entrances
        then Inl (InfiniteLoop (map entrance_name seen_entrances))
        else (case get_dungeon_start_exit_leading_to_nested_entrance zone_entrance of
                Inl err \<Rightarrow> Inl err
              | Inr dungeon_start_exit \<Rightarrow>
                  (case map_of done_exits_to_entrances dungeon_start_exit of
                     None \<Rightarrow> Inr None
                   | Some next_entrance \<Rightarrow>
                       entrances_on_path_loop done_exits_to_entrances next_entrance
                         (seen_entrances @ [zone_entrance])))
      else Inr (Some (seen_entrances @ [zone_entrance])))"
  by pat_completeness auto

termination
proof (relation "measure (\<lambda>(d, e, seen). card ((snd ` set d \<union> {e}) - set seen))", goal_cases)
  case 1
  show ?case by simp
next
  case (2 d e seen x nxt)
  have nxt_in: "nxt \<in> snd ` set d"
    using 2 by (metis map_of_SomeD snd_conv image_eqI)
  have eq: "(snd ` set d \<union> {nxt}) - set (seen @ [e]) = ((snd ` set d \<union> {e}) - set seen) - {e}"
    using nxt_in by auto
  have e_in: "e \<in> (snd ` set d \<union> {e}) - set seen"
    using 2 by simp
  have fin: "finite ((snd ` set d \<union> {e}) - set seen)"
    by simp
  show ?case
    unfolding in_measure prod.case eq by (rule card_Diff1_less [OF fin e_in])
qed

definition get_all_entrances_on_path_to_entrance ::
  "ZoneEntrance \<Rightarrow> (ZoneExit \<times> ZoneEntrance) list \<Rightarrow> error + ZoneEntrance list option" where
  "get_all_entrances_on_path_to_entrance zone_entrance done_exits_to_entrances =
     entrances_on_path_loop done_exits_to_entrances zone_entrance []"

text \<open>\<^verbatim>\<open>seen_entrances[-1]\<close> raises IndexError on an empty list.\<close>

definition get_outermost_entrance_for_entrance ::
  "ZoneEntrance \<Rightarrow> (ZoneExit \<times> ZoneEntrance) list \<Rightarrow> error + ZoneEntrance option" where
  "get_outermost_entrance_for_entrance zone_entrance done_exits_to_entrances =
     (case get_all_entrances_on_path_to_entrance zone_entrance done_exits_to_entrances of
        Inl err \<Rightarrow> Inl err
      | Inr None \<Rightarrow> Inr None
      | Inr (Some seen_entrances) \<Rightarrow>
          (if seen_entrances = [] then Inl IndexError else Inr (Some (last seen_entrances))))"

definition get_outermost_entrance_for_exit ::
  "ZoneExit \<Rightarrow> (ZoneExit \<times> ZoneEntrance) list \<Rightarrow> error + ZoneEntrance option" where
  "get_outermost_entrance_for_exit zone_exit done_exits_to_entrances =
     (case map_of done_exits_to_entrances zone_exit of
        None \<Rightarrow> Inl KeyError
      | Some zone_entrance \<Rightarrow> get_outermost_entrance_for_entrance zone_entrance done_exits_to_entrances)"


subsection \<open>The random source\<close>

text \<open>
  \<^verbatim>\<open>self.rng\<close> is Python's \<^verbatim>\<open>random.Random\<close>, which is not part of the repository. The
  model replaces the generator's state by the sequence of raw numbers it will still
  deliver, so that a statement about every such sequence covers every seed:
  \<^verbatim>\<open>_randbelow(n)\<close> reduces the next number modulo \<open>n\<close>, \<^verbatim>\<open>choice(seq)\<close> is
  \<^verbatim>\<open>seq[_randbelow(len(seq))]\<close> and raises IndexError on an empty sequence, and
  \<^verbatim>\<open>shuffle(x)\<close> swaps \<^verbatim>\<open>x[i]\<close> with \<^verbatim>\<open>x[_randbelow(i + 1)]\<close> for \<open>i\<close> from
  \<^verbatim>\<open>len(x) - 1\<close> down to 1.
\<close>

fun randbelow :: "nat \<Rightarrow> nat list \<Rightarrow> nat \<times> nat list" where
  "randbelow n [] = (0, [])"
| "randbelow n (k # ks) = (k mod n, ks)"

definition rng_choice :: "'a list \<Rightarrow> nat list \<Rightarrow> error + ('a \<times> nat list)" where
  "rng_choice xs r =
     (if xs = [] then Inl IndexError
      else case randbelow (length xs) r of (i, r') \<Rightarrow> Inr (xs ! i, r'))"

fun shuffle_from :: "nat \<Rightarrow> 'a list \<Rightarrow> nat list \<Rightarrow> 'a list \<times> nat list" where
  "shuffle_from 0 xs r = (xs, r)"
| "shuffle_from (Suc i) xs r =
     (case randbelow (Suc (Suc i)) r of
        (j, r') \<Rightarrow> shuffle_from i (xs[Suc i := xs ! j, j := xs ! Suc i]) r')"

definition rng_shuffle :: "'a list \<Rightarrow> nat list \<Rightarrow> 'a list \<times> nat list" where
  "rng_shuffle xs r = shuffle_from (length xs - 1) xs r"

subsection \<open>The randomizer object\<close>

text \<open>
  \<^verbatim>\<open>self.options.get(...)\<close> is read for its truth value only. The calls to
  \<^verbatim>\<open>update_entrance_to_lead_to_exit\<close> and \<^verbatim>\<open>update_boss_warp_out_destination\<close>, which
  patch the stage archives through \<^verbatim>\<open>wwlib\<close>, are recorded in call order in
  \<open>stage_data_calls\<close>; \<^verbatim>\<open>self.logic.update_entrance_connection_macros()\<close> touches none of
  the fields below and is left out.
\<close>

record rando_options =
  race_mode :: bool
  progression_dungeons :: bool
  progression_puzzle_secret_caves :: bool
  progression_combat_secret_caves :: bool
  progression_savage_labyrinth :: bool

datatype stage_call =
    UpdateEntranceToLeadToExit ZoneEntrance ZoneExit ZoneEntrance
  | UpdateBossWarpOutDestination "string option" ZoneEntrance

record randomizer =
  options :: rando_options
  dungeons_and_caves_only_start :: bool
  dry_run :: bool
  rng :: "nat list"
  entrance_connections :: "(string \<times> string) list"
  dungeon_and_cave_island_locations :: "(string \<times> string option) list"
  nested_entrance_paths :: "string list list"
  stage_data_calls :: "stage_call list"

subsection \<open>Setting up one run\<close>

definition select_relevant :: "bool \<Rightarrow> bool \<Rightarrow> bool \<Rightarrow> ZoneEntrance list \<times> ZoneExit list" where
  "select_relevant include_dungeons include_bosses include_caves =
     ((if include_dungeons then DUNGEON_ENTRANCES else []) @
      (if include_bosses then BOSS_ENTRANCES else []) @
      (if include_caves then SECRET_CAVE_ENTRANCES else []),
      (if include_dungeons then DUNGEON_EXITS else []) @
      (if include_bosses then BOSS_EXITS else []) @
      (if include_caves then SECRET_CAVE_EXITS else []))"

definition progression_caves :: "rando_options \<Rightarrow> bool" where
  "progression_caves opts =
     (progression_puzzle_secret_caves opts \<or> progression_combat_secret_caves opts
      \<or> progression_savage_labyrinth opts)"

definition doing_progress_entrances_for_dungeons_and_caves_only_start ::
  "randomizer \<Rightarrow> bool \<Rightarrow> bool \<Rightarrow> bool" where
  "doing_progress_entrances_for_dungeons_and_caves_only_start self include_dungeons include_caves =
     (dungeons_and_caves_only_start self \<and>
      ((include_dungeons \<and> progression_dungeons (options self)) \<or>
       (include_caves \<and> progression_caves (options self))))"

text \<open>
  The race-mode reorder: the entrances that share \<^verbatim>\<open>island_name\<close> with a different
  entrance of the list go to the front. \<^verbatim>\<open>list.remove\<close> deletes the first equal element.
\<close>

definition entrances_not_on_unique_islands :: "ZoneEntrance list \<Rightarrow> ZoneEntrance list" where
  "entrances_not_on_unique_islands relevant =
     filter (\<lambda>zone_entrance. \<exists>other \<in> set relevant.
        island_name other = island_name zone_entrance \<and> other \<noteq> zone_entrance) relevant"

definition island_grouping_reorder :: "ZoneEntrance list \<Rightarrow> ZoneEntrance list" where
  "island_grouping_reorder relevant =
     (let front = entrances_not_on_unique_islands relevant
      in front @ foldl (\<lambda>xs zone_entrance. remove1 zone_entrance xs) relevant front)"

definition entrance_names_with_no_requirements :: "rando_options \<Rightarrow> string list" where
  "entrance_names_with_no_requirements opts =
     (if progression_dungeons opts then DUNGEON_ENTRANCE_NAMES_WITH_NO_REQUIREMENTS else []) @
     (if progression_caves opts then SECRET_CAVE_ENTRANCE_NAMES_WITH_NO_REQUIREMENTS else [])"

definition exit_names_with_no_requirements :: "rando_options \<Rightarrow> string list" where
  "exit_names_with_no_requirements opts =
     (if progression_dungeons opts then DUNGEON_EXIT_NAMES_WITH_NO_REQUIREMENTS else []) @
     (if progression_puzzle_secret_caves opts
      then PUZZLE_SECRET_CAVE_EXIT_NAMES_WITH_NO_REQUIREMENTS else []) @
     (if progression_combat_secret_caves opts
      then COMBAT_SECRET_CAVE_EXIT_NAMES_WITH_NO_REQUIREMENTS else [])"

subsection \<open>The assignment loop\<close>

text \<open>
  The locals of the \<^verbatim>\<open>while relevant_entrances\<close> loop. The two dictionaries are association
  lists in insertion order, written with \<open>AList.update\<close> (a present key keeps its place).
\<close>

record assignment =
  relevant_entrances :: "ZoneEntrance list"
  remaining_exits :: "ZoneExit list"
  done_entrances_to_exits :: "(ZoneEntrance \<times> ZoneExit) list"
  done_exits_to_entrances :: "(ZoneExit \<times> ZoneEntrance) list"

text \<open>
  The candidate exits of one iteration (\<^verbatim>\<open>possible_remaining_exits\<close>). The argument
  \<open>safety\<close> is \<open>Some (safety_entrance, exit_names_with_no_requirements)\<close> when
  \<^verbatim>\<open>doing_progress_entrances_for_dungeons_and_caves_only_start\<close> holds and \<open>None\<close>
  otherwise (the two locals are then unbound and not read).
\<close>

definition possible_remaining_exits ::
  "bool \<Rightarrow> (ZoneEntrance \<times> string list) option \<Rightarrow> ZoneEntrance \<Rightarrow> ZoneExit list
     \<Rightarrow> (ZoneEntrance \<times> ZoneExit) list \<Rightarrow> ZoneExit list" where
  "possible_remaining_exits race safety zone_entrance remaining done_e2x =
     (let p1 = (case safety of
                  None \<Rightarrow> remaining
                | Some (safety_entrance, exit_names) \<Rightarrow>
                    if zone_entrance = safety_entrance
                    then filter (\<lambda>e. unique_name e \<in> set exit_names) remaining
                    else remaining);
          p2 = (if \<exists>e \<in> set p1. e \<in> set DUNGEON_EXITS
                then filter (\<lambda>e. e \<notin> set BOSS_EXITS) remaining
                else p1)
      in if race then
           (let done_entrances_on_same_island_leading_to_a_dungeon =
                  filter (\<lambda>(entr, ex). island_name entr = island_name zone_entrance
                                        \<and> ex \<in> set DUNGEON_EXITS) done_e2x
            in if done_entrances_on_same_island_leading_to_a_dungeon \<noteq> []
               then filter (\<lambda>ex. ex \<notin> set (DUNGEON_EXITS @ BOSS_EXITS)) p2
               else p2)
         else p2)"

text \<open>
  The loop may defer an entrance for ever, so it is a partial function: \<open>None\<close> means
  that it does not return. A returned triple holds the exception raised, if any, and the
  locals and the object as they are at that moment.
\<close>

partial_function (option) assignment_loop ::
  "bool \<Rightarrow> (ZoneEntrance \<times> string list) option \<Rightarrow> assignment \<Rightarrow> randomizer
     \<Rightarrow> (error option \<times> assignment \<times> randomizer) option" where
  "assignment_loop race safety st self =
     (case relevant_entrances st of
        [] \<Rightarrow> Some (None, st, self)
      | zone_entrance # rest \<Rightarrow>
          (case get_outermost_entrance_for_entrance zone_entrance (done_exits_to_entrances st) of
             Inl err \<Rightarrow> Some (Some err, st\<lparr>relevant_entrances := rest\<rparr>, self)
           | Inr None \<Rightarrow>
               assignment_loop race safety (st\<lparr>relevant_entrances := rest @ [zone_entrance]\<rparr>) self
           | Inr (Some outermost_entrance) \<Rightarrow>
               (let possible = possible_remaining_exits race safety zone_entrance
                                 (remaining_exits st) (done_entrances_to_exits st)
                in if possible = []
                   then Some (Some (NoValidExits (entrance_name zone_entrance)),
                              st\<lparr>relevant_entrances := rest\<rparr>, self)
                   else (case rng_choice possible (rng self) of
                           Inl err \<Rightarrow> Some (Some err, st\<lparr>relevant_entrances := rest\<rparr>, self)
                         | Inr (zone_exit, r') \<Rightarrow>
                             assignment_loop race safety
                               \<lparr>relevant_entrances = rest,
                                remaining_exits = remove1 zone_exit (remaining_exits st),
                                done_entrances_to_exits =
                                  AList.update zone_entrance zone_exit (done_entrances_to_exits st),
                                done_exits_to_entrances =
                                  AList.update zone_exit zone_entrance (done_exits_to_entrances st)\<rparr>
                               (self\<lparr>rng := r',
                                  entrance_connections :=
                                    AList.update (entrance_name zone_entrance) (unique_name zone_exit)
                                      (entrance_connections self)\<rparr>)))))"

declare assignment_loop.simps [code]


subsection \<open>After the loop\<close>

text \<open>
  The loop over \<^verbatim>\<open>done_exits_to_entrances.items()\<close>. An outermost entrance of \<^verbatim>\<open>None\<close>
  raises AttributeError at \<^verbatim>\<open>outermost_entrance.island_name\<close>.
\<close>

fun record_islands ::
  "(ZoneExit \<times> ZoneEntrance) list \<Rightarrow> (ZoneExit \<times> ZoneEntrance) list \<Rightarrow> randomizer
     \<Rightarrow> error option \<times> randomizer" where
  "record_islands done_x2e [] self = (None, self)"
| "record_islands done_x2e ((zone_exit, zone_entrance) # items) self =
     (case get_outermost_entrance_for_exit zone_exit done_x2e of
        Inl err \<Rightarrow> (Some err, self)
      | Inr None \<Rightarrow> (Some AttributeError, self)
      | Inr (Some outermost_entrance) \<Rightarrow>
          (let self1 = self\<lparr>dungeon_and_cave_island_locations :=
                         AList.update (zone_name zone_exit) (island_name outermost_entrance)
                           (dungeon_and_cave_island_locations self)\<rparr>;
               self2 = (if \<not> dry_run self1
                        then self1\<lparr>stage_data_calls := stage_data_calls self1 @
                               [UpdateEntranceToLeadToExit zone_entrance zone_exit outermost_entrance]\<rparr>
                        else self1)
           in record_islands done_x2e items self2))"

text \<open>The loop \<^verbatim>\<open>for boss_exit in BOSS_EXITS\<close> of the branch \<^verbatim>\<open>if include_bosses\<close>.\<close>

fun boss_warp_outs ::
  "(ZoneExit \<times> ZoneEntrance) list \<Rightarrow> ZoneExit list \<Rightarrow> randomizer \<Rightarrow> error option \<times> randomizer" where
  "boss_warp_outs done_x2e [] self = (None, self)"
| "boss_warp_outs done_x2e (boss_exit # exits) self =
     (if \<not> dry_run self then
        (case get_outermost_entrance_for_exit boss_exit done_x2e of
           Inl err \<Rightarrow> (Some err, self)
         | Inr None \<Rightarrow> (Some AttributeError, self)
         | Inr (Some outermost_entrance) \<Rightarrow>
             boss_warp_outs done_x2e exits
               (self\<lparr>stage_data_calls := stage_data_calls self @
                  [UpdateBossWarpOutDestination (Some (exit_stage_name boss_exit)) outermost_entrance]\<rparr>))
      else boss_warp_outs done_x2e exits self)"

text \<open>The loop \<^verbatim>\<open>for dungeon_exit in DUNGEON_EXITS\<close> of the branch \<^verbatim>\<open>elif include_dungeons\<close>.\<close>

fun dungeon_boss_islands ::
  "(ZoneExit \<times> ZoneEntrance) list \<Rightarrow> ZoneExit list \<Rightarrow> randomizer \<Rightarrow> error option \<times> randomizer" where
  "dungeon_boss_islands done_x2e [] self = (None, self)"
| "dungeon_boss_islands done_x2e (dungeon_exit # exits) self =
     (case map_of done_x2e dungeon_exit of
        None \<Rightarrow> (Some KeyError, self)
      | Some outermost_entrance \<Rightarrow>
          (let self1 = (if \<not> dry_run self
                        then self\<lparr>stage_data_calls := stage_data_calls self @
                               [UpdateBossWarpOutDestination (boss_stage_name dungeon_exit) outermost_entrance]\<rparr>
                        else self)
           in case find (\<lambda>zone_exit. Some (exit_stage_name zone_exit) = boss_stage_name dungeon_exit)
                     BOSS_EXITS of
                None \<Rightarrow> (Some StopIteration, self1)
              | Some boss_exit \<Rightarrow>
                  dungeon_boss_islands done_x2e exits
                    (self1\<lparr>dungeon_and_cave_island_locations :=
                       AList.update (zone_name boss_exit) (island_name outermost_entrance)
                         (dungeon_and_cave_island_locations self1)\<rparr>)))"

text \<open>
  The spoiler-log paths. Iterating over a \<^verbatim>\<open>seen_entrances\<close> of \<^verbatim>\<open>None\<close> raises TypeError.
\<close>

fun nested_paths ::
  "(ZoneExit \<times> ZoneEntrance) list \<Rightarrow> ZoneExit list \<Rightarrow> randomizer \<Rightarrow> error option \<times> randomizer" where
  "nested_paths done_x2e [] self = (None, self)"
| "nested_paths done_x2e (terminal_exit # exits) self =
     (case map_of done_x2e terminal_exit of
        None \<Rightarrow> (Some KeyError, self)
      | Some zone_entrance \<Rightarrow>
          (case get_all_entrances_on_path_to_entrance zone_entrance done_x2e of
             Inl err \<Rightarrow> (Some err, self)
           | Inr None \<Rightarrow> (Some TypeError, self)
           | Inr (Some seen_entrances) \<Rightarrow>
               nested_paths done_x2e exits
                 (self\<lparr>nested_entrance_paths := nested_entrance_paths self @
                    [rev (unique_name terminal_exit # map entrance_name seen_entrances)]\<rparr>)))"

definition finish_run ::
  "bool \<Rightarrow> bool \<Rightarrow> ZoneExit list \<Rightarrow> (ZoneExit \<times> ZoneEntrance) list \<Rightarrow> randomizer
     \<Rightarrow> error option \<times> randomizer" where
  "finish_run include_dungeons include_bosses relevant_exits done_x2e self =
     (case record_islands done_x2e done_x2e self of
        (Some err, self1) \<Rightarrow> (Some err, self1)
      | (None, self1) \<Rightarrow>
          (case (if include_bosses then boss_warp_outs done_x2e BOSS_EXITS self1
                 else if include_dungeons then dungeon_boss_islands done_x2e DUNGEON_EXITS self1
                 else (None, self1)) of
             (Some err, self2) \<Rightarrow> (Some err, self2)
           | (None, self2) \<Rightarrow>
               (if include_bosses
                then nested_paths done_x2e (filter (\<lambda>ex. ex \<notin> set DUNGEON_EXITS) relevant_exits)
                       (self2\<lparr>nested_entrance_paths := []\<rparr>)
                else (None, self2))))"

subsection \<open>One run\<close>

text \<open>
  \<^verbatim>\<open>randomize_one_set_of_entrances\<close>. The Python function returns nothing; the model
  returns the exception raised, if any, the object, and the locals of the loop as they are
  when the function is left, so that properties of the two local dictionaries can be stated.
  \<open>None\<close> means that the call does not return.
\<close>

definition safety_setup ::
  "randomizer \<Rightarrow> ZoneEntrance list
     \<Rightarrow> error + (ZoneEntrance list \<times> (ZoneEntrance \<times> string list) \<times> randomizer)" where
  "safety_setup self relevant =
     (let possible_safety_entrances =
            filter (\<lambda>e. entrance_name e \<in> set (entrance_names_with_no_requirements (options self)))
              relevant
      in case rng_choice possible_safety_entrances (rng self) of
           Inl err \<Rightarrow> Inl err
         | Inr (safety_entrance, r') \<Rightarrow>
             if safety_entrance \<notin> set relevant then Inl ValueError
             else Inr (safety_entrance # remove1 safety_entrance relevant,
                       (safety_entrance, exit_names_with_no_requirements (options self)),
                       self\<lparr>rng := r'\<rparr>))"

definition randomize_one_set_of_entrances ::
  "bool \<Rightarrow> bool \<Rightarrow> bool \<Rightarrow> randomizer \<Rightarrow> (error option \<times> assignment \<times> randomizer) option" where
  "randomize_one_set_of_entrances include_dungeons include_bosses include_caves self =
     (case select_relevant include_dungeons include_bosses include_caves of
        (relevant0, relevant_exits) \<Rightarrow>
     (case rng_shuffle relevant0 (rng self) of
        (shuffled, r1) \<Rightarrow>
     (let self1 = self\<lparr>rng := r1\<rparr>;
          relevant1 = (if race_mode (options self1) then island_grouping_reorder shuffled
                       else shuffled);
          start = (\<lambda>relevant. \<lparr>relevant_entrances = relevant, remaining_exits = relevant_exits,
                      done_entrances_to_exits = [], done_exits_to_entrances = []\<rparr>);
          looped =
            (if doing_progress_entrances_for_dungeons_and_caves_only_start self1
                  include_dungeons include_caves
             then (case safety_setup self1 relevant1 of
                     Inl err \<Rightarrow> Some (Some err, start relevant1, self1)
                   | Inr (relevant2, safety, self2) \<Rightarrow>
                       assignment_loop (race_mode (options self2)) (Some safety)
                         (start relevant2) self2)
             else assignment_loop (race_mode (options self1)) None (start relevant1) self1)
      in case looped of
           None \<Rightarrow> None
         | Some (Some err, st, self3) \<Rightarrow> Some (Some err, st, self3)
         | Some (None, st, self3) \<Rightarrow>
             (case finish_run include_dungeons include_bosses relevant_exits
                     (done_exits_to_entrances st) self3 of
                (res, self4) \<Rightarrow> Some (res, st, self4)))))"

subsection \<open>The zone credited to an item location\<close>

text \<open>
  \<^verbatim>\<open>get_entrance_zone_for_item_location\<close>. The two methods of \<^verbatim>\<open>self.logic\<close> that it
  calls are not part of the sources at hand and are parameters: \<open>split_location_name_by_zone\<close>
  and \<open>is_dungeon_or_cave\<close>. The values of \<^verbatim>\<open>dungeon_and_cave_island_locations\<close> are optional
  strings, and so is the result.
\<close>

definition get_entrance_zone_for_item_location ::
  "(string \<Rightarrow> string \<times> string) \<Rightarrow> (string \<Rightarrow> bool) \<Rightarrow> (string \<times> string option) list
     \<Rightarrow> string \<Rightarrow> string option" where
  "get_entrance_zone_for_item_location split_location_name_by_zone is_dungeon_or_cave
       island_locations location_name =
     (let zone0 = fst (split_location_name_by_zone location_name);
          zone = (case map_of ITEM_LOCATION_NAME_TO_EXIT_ZONE_NAME_OVERRIDES location_name of
                    Some z \<Rightarrow> z | None \<Rightarrow> zone0)
      in case map_of island_locations zone of
           Some entrance_zone \<Rightarrow>
             if is_dungeon_or_cave location_name then
               (if entrance_zone = Some ''Tower of the Gods''
                then Some ''Tower of the Gods Sector'' else entrance_zone)
             else (if location_name = ''Tower of the Gods - Sunken Treasure''
                   then Some ''Tower of the Gods Sector'' else Some zone)
         | None \<Rightarrow>
             (if location_name = ''Tower of the Gods - Sunken Treasure''
              then Some ''Tower of the Gods Sector'' else Some zone))"


text \<open>
  The zone that the lookup works with, in the words of the specification: the nominal zone
  of the identifier, replaced by the override when the full identifier is listed in the
  override table.
\<close>

definition zone_after_override :: "(string \<Rightarrow> string \<times> string) \<Rightarrow> string \<Rightarrow> string" where
  "zone_after_override split_location_name_by_zone location_name =
     (if location_name \<in> fst ` set ITEM_LOCATION_NAME_TO_EXIT_ZONE_NAME_OVERRIDES
      then the (map_of ITEM_LOCATION_NAME_TO_EXIT_ZONE_NAME_OVERRIDES location_name)
      else fst (split_location_name_by_zone location_name))"

subsection \<open>Evaluation order made explicit\<close>

text \<open>
  The same functions with each step as a function of the value of the step before, so that
  a run on a concrete input can be evaluated step by step. The equations below state that
  they agree with \<open>finish_run\<close> and \<open>randomize_one_set_of_entrances\<close>.
\<close>

fun after_warps ::
  "bool \<Rightarrow> ZoneExit list \<Rightarrow> (ZoneExit \<times> ZoneEntrance) list \<Rightarrow> error option \<times> randomizer
     \<Rightarrow> error option \<times> randomizer" where
  "after_warps include_bosses relevant_exits done_x2e (Some err, self2) = (Some err, self2)"
| "after_warps include_bosses relevant_exits done_x2e (None, self2) =
     (if include_bosses
      then nested_paths done_x2e (filter (\<lambda>ex. ex \<notin> set DUNGEON_EXITS) relevant_exits)
             (self2\<lparr>nested_entrance_paths := []\<rparr>)
      else (None, self2))"

fun after_islands ::
  "bool \<Rightarrow> bool \<Rightarrow> ZoneExit list \<Rightarrow> (ZoneExit \<times> ZoneEntrance) list \<Rightarrow> error option \<times> randomizer
     \<Rightarrow> error option \<times> randomizer" where
  "after_islands include_dungeons include_bosses relevant_exits done_x2e (Some err, self1) =
     (Some err, self1)"
| "after_islands include_dungeons include_bosses relevant_exits done_x2e (None, self1) =
     after_warps include_bosses relevant_exits done_x2e
       (if include_bosses then boss_warp_outs done_x2e BOSS_EXITS self1
        else if include_dungeons then dungeon_boss_islands done_x2e DUNGEON_EXITS self1
        else (None, self1))"

fun pack_result ::
  "assignment \<Rightarrow> error option \<times> randomizer \<Rightarrow> (error option \<times> assignment \<times> randomizer) option" where
  "pack_result st (res, self4) = Some (res, st, self4)"

fun after_loop ::
  "bool \<Rightarrow> bool \<Rightarrow> ZoneExit list \<Rightarrow> (error option \<times> assignment \<times> randomizer) option
     \<Rightarrow> (error option \<times> assignment \<times> randomizer) option" where
  "after_loop include_dungeons include_bosses relevant_exits None = None"
| "after_loop include_dungeons include_bosses relevant_exits (Some (Some err, st, self3)) =
     Some (Some err, st, self3)"
| "after_loop include_dungeons include_bosses relevant_exits (Some (None, st, self3)) =
     pack_result st (finish_run include_dungeons include_bosses relevant_exits
                       (done_exits_to_entrances st) self3)"

definition start_state :: "ZoneEntrance list \<Rightarrow> ZoneExit list \<Rightarrow> assignment" where
  "start_state pending exits =
     \<lparr>relevant_entrances = pending, remaining_exits = exits,
      done_entrances_to_exits = [], done_exits_to_entrances = []\<rparr>"

fun loop_with_safety ::
  "ZoneExit list \<Rightarrow> randomizer \<Rightarrow> ZoneEntrance list
     \<Rightarrow> error + (ZoneEntrance list \<times> (ZoneEntrance \<times> string list) \<times> randomizer)
     \<Rightarrow> (error option \<times> assignment \<times> randomizer) option" where
  "loop_with_safety relevant_exits self1 relevant1 (Inl err) =
     Some (Some err, start_state relevant1 relevant_exits, self1)"
| "loop_with_safety relevant_exits self1 relevant1 (Inr (relevant2, safety, self2)) =
     assignment_loop (race_mode (options self2)) (Some safety)
       (start_state relevant2 relevant_exits) self2"

fun run_from_order ::
  "bool \<Rightarrow> bool \<Rightarrow> bool \<Rightarrow> ZoneExit list \<Rightarrow> bool \<Rightarrow> ZoneEntrance list \<Rightarrow> randomizer
     \<Rightarrow> (error option \<times> assignment \<times> randomizer) option" where
  "run_from_order d b c relevant_exits True relevant1 self1 =
     after_loop d b relevant_exits
       (loop_with_safety relevant_exits self1 relevant1 (safety_setup self1 relevant1))"
| "run_from_order d b c relevant_exits False relevant1 self1 =
     after_loop d b relevant_exits
       (assignment_loop (race_mode (options self1)) None (start_state relevant1 relevant_exits) self1)"

fun reorder_if :: "bool \<Rightarrow> ZoneEntrance list \<Rightarrow> ZoneEntrance list" where
  "reorder_if True shuffled = island_grouping_reorder shuffled"
| "reorder_if False shuffled = shuffled"

fun run_from_shuffle ::
  "bool \<Rightarrow> bool \<Rightarrow> bool \<Rightarrow> ZoneExit list \<Rightarrow> randomizer \<Rightarrow> ZoneEntrance list \<times> nat list
     \<Rightarrow> (error option \<times> assignment \<times> randomizer) option" where
  "run_from_shuffle d b c relevant_exits self (shuffled, r1) =
     run_from_order d b c relevant_exits
       (doing_progress_entrances_for_dungeons_and_caves_only_start (self\<lparr>rng := r1\<rparr>) d c)
       (reorder_if (race_mode (options self)) shuffled) (self\<lparr>rng := r1\<rparr>)"

fun run_from_selection ::
  "bool \<Rightarrow> bool \<Rightarrow> bool \<Rightarrow> randomizer \<Rightarrow> ZoneEntrance list \<times> ZoneExit list
     \<Rightarrow> (error option \<times> assignment \<times> randomizer) option" where
  "run_from_selection d b c self (relevant0, relevant_exits) =
     run_from_shuffle d b c relevant_exits self (rng_shuffle relevant0 (rng self))"


subsection \<open>Notions used in the proofs\<close>

text \<open>The locals and the object after one placement, as the loop body builds them.\<close>

definition placed :: "assignment \<Rightarrow> ZoneEntrance \<Rightarrow> ZoneEntrance list \<Rightarrow> ZoneExit \<Rightarrow> assignment" where
  "placed st ze rest zx =
     \<lparr>relevant_entrances = rest,
      remaining_exits = remove1 zx (remaining_exits st),
      done_entrances_to_exits = AList.update ze zx (done_entrances_to_exits st),
      done_exits_to_entrances = AList.update zx ze (done_exits_to_entrances st)\<rparr>"

definition connected :: "randomizer \<Rightarrow> ZoneEntrance \<Rightarrow> ZoneExit \<Rightarrow> nat list \<Rightarrow> randomizer" where
  "connected self ze zx r' =
     self\<lparr>rng := r', entrance_connections :=
            AList.update (entrance_name ze) (unique_name zx) (entrance_connections self)\<rparr>"


text \<open>
  The state of the loop is well formed for the selected entrances \<open>E\<close> and exits \<open>X\<close>:
  the pending entrances and the connected ones partition \<open>E\<close>, the remaining exits and the
  connected ones partition \<open>X\<close>, nothing is repeated, and the two dictionaries are each
  other's converse.
\<close>

definition wf_state :: "ZoneEntrance list \<Rightarrow> ZoneExit list \<Rightarrow> assignment \<Rightarrow> bool" where
  "wf_state E X st \<longleftrightarrow>
     distinct (relevant_entrances st) \<and> distinct (remaining_exits st) \<and>
     distinct (map fst (done_entrances_to_exits st)) \<and>
     distinct (map snd (done_entrances_to_exits st)) \<and>
     set (relevant_entrances st) \<union> fst ` set (done_entrances_to_exits st) = set E \<and>
     set (relevant_entrances st) \<inter> fst ` set (done_entrances_to_exits st) = {} \<and>
     set (remaining_exits st) \<union> snd ` set (done_entrances_to_exits st) = set X \<and>
     set (remaining_exits st) \<inter> snd ` set (done_entrances_to_exits st) = {} \<and>
     done_exits_to_entrances st = map (\<lambda>(e, x). (x, e)) (done_entrances_to_exits st) \<and>
     length (relevant_entrances st) = length (remaining_exits st)"


text \<open>The fields of the object that the setup and the loop leave alone.\<close>

definition same_outside_loop :: "randomizer \<Rightarrow> randomizer \<Rightarrow> bool" where
  "same_outside_loop self self1 \<longleftrightarrow>
     options self1 = options self \<and> dry_run self1 = dry_run self \<and>
     dungeons_and_caves_only_start self1 = dungeons_and_caves_only_start self \<and>
     stage_data_calls self1 = stage_data_calls self \<and>
     dungeon_and_cave_island_locations self1 = dungeon_and_cave_island_locations self \<and>
     nested_entrance_paths self1 = nested_entrance_paths self"


text \<open>An object for the examples: every option off, a real start, eight random numbers.\<close>

definition example_self :: randomizer where
  "example_self = \<lparr>options = \<lparr>race_mode = False, progression_dungeons = False,
       progression_puzzle_secret_caves = False, progression_combat_secret_caves = False,
       progression_savage_labyrinth = False\<rparr>,
     dungeons_and_caves_only_start = False, dry_run = False, rng = [3, 1, 4, 1, 5, 9, 2, 6],
     entrance_connections = [], dungeon_and_cave_island_locations = [],
     nested_entrance_paths = [], stage_data_calls = []\<rparr>"



text \<open>
  Two more objects for the examples. In the first, every draw of the random source is 0.
  In the second, the start is restricted to dungeons and caves, the dungeons are
  progression locations, and the sixth draw (the choice of the first exit) is 1.
\<close>

definition zero_draws_self :: randomizer where
  "zero_draws_self = example_self\<lparr>rng := replicate 60 0\<rparr>"

definition example_safety_self :: randomizer where
  "example_safety_self =
     example_self\<lparr>options := (options example_self)\<lparr>progression_dungeons := True\<rparr>,
                   dungeons_and_caves_only_start := True, rng := [0, 0, 0, 0, 0, 1]\<rparr>"

text \<open>
  The connections, in the order in which they were made, respect the batch order for the
  exits \<open>X\<close> of the run: before every connection to a Boss exit, every Dungeon exit of
  \<open>X\<close> has been connected.
\<close>

definition boss_before_dungeons :: "ZoneExit list \<Rightarrow> (ZoneEntrance \<times> ZoneExit) list \<Rightarrow> bool" where
  "boss_before_dungeons X con \<longleftrightarrow>
     (\<forall>pre e x post. con = pre @ (e, x) # post \<and> x \<in> set BOSS_EXITS
        \<longrightarrow> set X \<inter> set DUNGEON_EXITS \<subseteq> snd ` set pre)"


section \<open>Properties\<close>

subsection \<open>Zone lookup\<close>

lemma zone_after_override_eq:
  "(case map_of ITEM_LOCATION_NAME_TO_EXIT_ZONE_NAME_OVERRIDES loc of
      Some z \<Rightarrow> z | None \<Rightarrow> fst (sp loc)) = zone_after_override sp loc"
proof (cases "map_of ITEM_LOCATION_NAME_TO_EXIT_ZONE_NAME_OVERRIDES loc")
  case None
  then have "loc \<notin> fst ` set ITEM_LOCATION_NAME_TO_EXIT_ZONE_NAME_OVERRIDES"
    by (simp add: map_of_eq_None_iff)
  with None show ?thesis by (simp add: zone_after_override_def)
next
  case (Some z)
  then have "loc \<in> fst ` set ITEM_LOCATION_NAME_TO_EXIT_ZONE_NAME_OVERRIDES"
    by (metis map_of_eq_None_iff option.distinct(1))
  with Some show ?thesis by (simp add: zone_after_override_def)
qed

text \<open>
  Claim C9, as amended. The zone is the nominal zone of the identifier, replaced by the
  override when the full identifier is listed in the override table. When that zone has an
  entry in the island attribution and the location is a dungeon or cave location, the result
  is the attributed island, except that an attributed ``Tower of the Gods'' gives ``Tower
  of the Gods Sector''. Otherwise the result is that same zone after the override (not the
  nominal zone of the split), except that the identifier ``Tower of the Gods - Sunken
  Treasure'' gives ``Tower of the Gods Sector''.
\<close>

theorem entrance_zone_for_item_location:
  "(\<forall>attributed. map_of island_locations (zone_after_override sp loc) = Some attributed
        \<and> is_dc loc \<longrightarrow>
      get_entrance_zone_for_item_location sp is_dc island_locations loc =
        (if attributed = Some ''Tower of the Gods'' then Some ''Tower of the Gods Sector''
         else attributed))
   \<and> (map_of island_locations (zone_after_override sp loc) = None \<or> \<not> is_dc loc \<longrightarrow>
      get_entrance_zone_for_item_location sp is_dc island_locations loc =
        (if loc = ''Tower of the Gods - Sunken Treasure'' then Some ''Tower of the Gods Sector''
         else Some (zone_after_override sp loc)))"
  unfolding get_entrance_zone_for_item_location_def Let_def zone_after_override_eq
  by (auto split: option.splits)

text \<open>
  The theorem at two inputs. The Gohdan heart container, with the split giving the nominal
  zone ``Tower of the Gods'' and the boss arena attributed to the island ``Tower of the
  Gods'', is credited to ``Tower of the Gods Sector''. The Wizzrobe cave of Pawprint Isle,
  with an empty attribution, falls back to the override zone ``Pawprint Isle Side Isle''.
\<close>

theorem entrance_zone_for_item_location_witness:
  "get_entrance_zone_for_item_location (Pair ''Tower of the Gods'')
     ((=) ''Tower of the Gods - Gohdan Heart Container'')
     [(''Gohdan Boss Arena'', Some ''Tower of the Gods'')]
     ''Tower of the Gods - Gohdan Heart Container'' = Some ''Tower of the Gods Sector''
   \<and> get_entrance_zone_for_item_location (Pair ''Pawprint Isle'')
     ((=) ''Pawprint Isle - Wizzrobe Cave'') []
     ''Pawprint Isle - Wizzrobe Cave'' = Some ''Pawprint Isle Side Isle''"
proof -
  have z1: "zone_after_override (Pair ''Tower of the Gods'')
              ''Tower of the Gods - Gohdan Heart Container'' = ''Gohdan Boss Arena''"
    by (simp add: zone_after_override_def ITEM_LOCATION_NAME_TO_EXIT_ZONE_NAME_OVERRIDES_def)
  have z2: "zone_after_override (Pair ''Pawprint Isle'')
              ''Pawprint Isle - Wizzrobe Cave'' = ''Pawprint Isle Side Isle''"
    by (simp add: zone_after_override_def ITEM_LOCATION_NAME_TO_EXIT_ZONE_NAME_OVERRIDES_def)
  have a: "map_of [(''Gohdan Boss Arena'', Some ''Tower of the Gods'')]
             (zone_after_override (Pair ''Tower of the Gods'')
                ''Tower of the Gods - Gohdan Heart Container'') = Some (Some ''Tower of the Gods'')
           \<and> ''Tower of the Gods - Gohdan Heart Container'' =
               ''Tower of the Gods - Gohdan Heart Container''"
    by (simp add: z1)
  have b: "map_of [] (zone_after_override (Pair ''Pawprint Isle'')
             ''Pawprint Isle - Wizzrobe Cave'') = (None :: string option option)
           \<or> \<not> ''Pawprint Isle - Wizzrobe Cave'' = ''Pawprint Isle - Wizzrobe Cave''"
    by simp
  show ?thesis
    using entrance_zone_for_item_location
            [of "[(''Gohdan Boss Arena'', Some ''Tower of the Gods'')]"
                "Pair ''Tower of the Gods''"
                "''Tower of the Gods - Gohdan Heart Container''"
                "(=) ''Tower of the Gods - Gohdan Heart Container''"] a
          entrance_zone_for_item_location
            [of "[]" "Pair ''Pawprint Isle''" "''Pawprint Isle - Wizzrobe Cave''"
                "(=) ''Pawprint Isle - Wizzrobe Cave''"] b z2
    by simp
qed

text \<open>
  Claim C9 as stated says that the fallback result is the nominal zone name. For the
  identifier ``Pawprint Isle - Wizzrobe Cave'', whose nominal zone is ``Pawprint Isle'',
  and an island attribution without an entry for the override zone, the function returns
  the override zone ``Pawprint Isle Side Isle''.
\<close>

theorem entrance_zone_nominal_fallback_counterexample:
  "get_entrance_zone_for_item_location (Pair ''Pawprint Isle'')
     ((=) ''Pawprint Isle - Wizzrobe Cave'') [] ''Pawprint Isle - Wizzrobe Cave''
     = Some ''Pawprint Isle Side Isle''
   \<and> fst (Pair ''Pawprint Isle'' ''Pawprint Isle - Wizzrobe Cave'') = ''Pawprint Isle''
   \<and> get_entrance_zone_for_item_location (Pair ''Pawprint Isle'')
     ((=) ''Pawprint Isle - Wizzrobe Cave'') [] ''Pawprint Isle - Wizzrobe Cave''
     \<noteq> Some (fst (Pair ''Pawprint Isle'' ''Pawprint Isle - Wizzrobe Cave''))"
  by (simp add: get_entrance_zone_for_item_location_def
        ITEM_LOCATION_NAME_TO_EXIT_ZONE_NAME_OVERRIDES_def)


subsection \<open>Evaluation equations\<close>

lemma finish_run_code [code]:
  "finish_run include_dungeons include_bosses relevant_exits done_x2e self =
     after_islands include_dungeons include_bosses relevant_exits done_x2e
       (record_islands done_x2e done_x2e self)"
proof -
  obtain r self1 where ri: "record_islands done_x2e done_x2e self = (r, self1)"
    by (cases "record_islands done_x2e done_x2e self")
  show ?thesis
  proof (cases r)
    case None
    obtain r2 self2 where w: "(if include_bosses then boss_warp_outs done_x2e BOSS_EXITS self1
        else if include_dungeons then dungeon_boss_islands done_x2e DUNGEON_EXITS self1
        else (None, self1)) = (r2, self2)"
      by (cases "(if include_bosses then boss_warp_outs done_x2e BOSS_EXITS self1
        else if include_dungeons then dungeon_boss_islands done_x2e DUNGEON_EXITS self1
        else (None, self1))")
    show ?thesis
      unfolding finish_run_def ri None by (cases r2) (simp_all add: w)
  next
    case (Some err)
    then show ?thesis unfolding finish_run_def ri by simp
  qed
qed

lemma after_loop_eq:
  "after_loop d b X L =
     (case L of None \<Rightarrow> None
      | Some (Some err, st, self3) \<Rightarrow> Some (Some err, st, self3)
      | Some (None, st, self3) \<Rightarrow>
          (case finish_run d b X (done_exits_to_entrances st) self3 of
             (res, self4) \<Rightarrow> Some (res, st, self4)))"
  by (cases "(d, b, X, L)" rule: after_loop.cases) (auto split: prod.splits)

lemma loop_with_safety_eq:
  "loop_with_safety X self1 relevant1 r =
     (case r of
        Inl err \<Rightarrow> Some (Some err, start_state relevant1 X, self1)
      | Inr (relevant2, safety, self2) \<Rightarrow>
          assignment_loop (race_mode (options self2)) (Some safety) (start_state relevant2 X) self2)"
  by (cases "(X, self1, relevant1, r)" rule: loop_with_safety.cases) auto

lemma run_from_order_eq:
  "run_from_order d b c X doing relevant1 self1 =
     after_loop d b X
       (if doing then loop_with_safety X self1 relevant1 (safety_setup self1 relevant1)
        else assignment_loop (race_mode (options self1)) None (start_state relevant1 X) self1)"
  by (cases doing) simp_all

lemma reorder_if_eq:
  "reorder_if race sh = (if race then island_grouping_reorder sh else sh)"
  by (cases race) simp_all

lemma randomize_one_set_of_entrances_code [code]:
  "randomize_one_set_of_entrances d b c self =
     run_from_selection d b c self (select_relevant d b c)"
proof -
  obtain E X where sel: "select_relevant d b c = (E, X)" by (cases "select_relevant d b c")
  obtain sh r1 where shf: "rng_shuffle E (rng self) = (sh, r1)" by (cases "rng_shuffle E (rng self)")
  show ?thesis
    unfolding randomize_one_set_of_entrances_def Let_def
    by (simp add: sel shf run_from_order_eq[unfolded start_state_def] reorder_if_eq after_loop_eq
          loop_with_safety_eq[unfolded start_state_def])
qed


subsection \<open>The random source\<close>

lemma randbelow_less: "0 < n \<Longrightarrow> fst (randbelow n r) < n"
  by (cases r) auto

lemma rng_choice_in: "rng_choice xs r = Inr (x, r') \<Longrightarrow> x \<in> set xs"
  by (auto simp: rng_choice_def split: if_splits prod.splits)
     (metis fst_conv length_greater_0_conv nth_mem randbelow_less)

lemma rng_choice_nonempty: "xs \<noteq> [] \<Longrightarrow> \<exists>x r'. rng_choice xs r = Inr (x, r')"
  by (auto simp: rng_choice_def split: prod.splits)




subsection \<open>Well-formed loop states\<close>

lemma update_new: "k \<notin> fst ` set al \<Longrightarrow> AList.update k v al = al @ [(k, v)]"
  by (induction al) auto

lemma possible_subset:
  "set (possible_remaining_exits race safety ze remaining d) \<subseteq> set remaining"
  by (auto simp: possible_remaining_exits_def Let_def split: option.splits if_splits)

lemma wf_start:
  "distinct pending \<Longrightarrow> distinct exits \<Longrightarrow> set pending = set E \<Longrightarrow> set exits = set X \<Longrightarrow>
   length pending = length exits \<Longrightarrow> wf_state E X (start_state pending exits)"
  by (simp add: wf_state_def start_state_def)

lemma wf_defer:
  assumes "wf_state E X st" "relevant_entrances st = ze # rest"
  shows "wf_state E X (st\<lparr>relevant_entrances := rest @ [ze]\<rparr>)"
  using assms unfolding wf_state_def by auto

lemma wf_place:
  assumes wf: "wf_state E X st" and pend: "relevant_entrances st = ze # rest"
    and zx: "zx \<in> set (remaining_exits st)"
  shows "wf_state E X (placed st ze rest zx)"
proof -
  let ?d = "done_entrances_to_exits st"
  from wf pend have ze_new: "ze \<notin> fst ` set ?d" unfolding wf_state_def by auto
  from wf zx have zx_new: "zx \<notin> snd ` set ?d" unfolding wf_state_def by auto
  have x2e: "done_exits_to_entrances st = map (\<lambda>(e, x). (x, e)) ?d"
    using wf unfolding wf_state_def by simp
  have "fst ` set (map (\<lambda>(e, x). (x, e)) ?d) = snd ` set ?d" by force
  with zx_new have zx_new': "zx \<notin> fst ` set (done_exits_to_entrances st)" using x2e by simp
  have d': "done_entrances_to_exits (placed st ze rest zx) = ?d @ [(ze, zx)]"
    by (simp add: placed_def update_new[OF ze_new])
  have x': "done_exits_to_entrances (placed st ze rest zx) = done_exits_to_entrances st @ [(zx, ze)]"
    by (simp add: placed_def update_new[OF zx_new'])
  have rem: "remaining_exits (placed st ze rest zx) = remove1 zx (remaining_exits st)"
    and pen: "relevant_entrances (placed st ze rest zx) = rest"
    by (simp_all add: placed_def)
  have len: "length (remove1 zx (remaining_exits st)) = length (remaining_exits st) - 1"
    using zx by (simp add: length_remove1)
  show ?thesis
    unfolding wf_state_def d' x' rem pen
    using wf pend zx ze_new zx_new x2e len unfolding wf_state_def
    by (auto simp: set_remove1_eq)
qed



lemma shuffle_from_mset: "i < length xs \<Longrightarrow> mset (fst (shuffle_from i xs r)) = mset xs"
proof (induction i arbitrary: xs r)
  case 0
  then show ?case by simp
next
  case (Suc i)
  obtain j r' where jr: "randbelow (Suc (Suc i)) r = (j, r')" by (cases "randbelow (Suc (Suc i)) r")
  have "j < Suc (Suc i)" using randbelow_less[of "Suc (Suc i)" r] jr by simp
  with Suc.prems have j: "j < length xs" by simp
  have sw: "mset (xs[Suc i := xs ! j, j := xs ! Suc i]) = mset xs"
    using mset_swap[OF j Suc.prems] .
  have "i < length (xs[Suc i := xs ! j, j := xs ! Suc i])" using Suc.prems by simp
  from Suc.IH[OF this] sw jr show ?case by simp
qed

lemma rng_shuffle_mset: "mset (fst (rng_shuffle xs r)) = mset xs"
  by (cases xs) (simp_all add: rng_shuffle_def shuffle_from_mset)

lemma foldl_remove1_mset:
  "mset front \<subseteq># mset rel \<Longrightarrow>
   mset (foldl (\<lambda>xs z. remove1 z xs) rel front) = mset rel - mset front"
proof (induction front arbitrary: rel)
  case Nil
  then show ?case by simp
next
  case (Cons z front)
  from Cons.prems have "mset front \<subseteq># mset (remove1 z rel)"
    by (simp add: insert_subset_eq_iff)
  from Cons.IH[OF this] show ?case by (simp add: diff_diff_add_mset)
qed

lemma island_grouping_reorder_mset: "mset (island_grouping_reorder rel) = mset rel"
proof -
  have sub: "mset (entrances_not_on_unique_islands rel) \<subseteq># mset rel"
    by (simp add: entrances_not_on_unique_islands_def)
  show ?thesis
    unfolding island_grouping_reorder_def Let_def
    by (simp add: foldl_remove1_mset[OF sub] sub)
qed


lemma distinct_ALL_ENTRANCES: "distinct ALL_ENTRANCES"
  by code_simp

lemma distinct_ALL_EXITS: "distinct ALL_EXITS"
  by code_simp

lemma catalog_lengths:
  "length DUNGEON_ENTRANCES = 5" "length BOSS_ENTRANCES = 5" "length SECRET_CAVE_ENTRANCES = 20"
  "length DUNGEON_EXITS = 5" "length BOSS_EXITS = 5" "length SECRET_CAVE_EXITS = 20"
  by (simp_all add: DUNGEON_ENTRANCES_def BOSS_ENTRANCES_def SECRET_CAVE_ENTRANCES_def
        DUNGEON_EXITS_def BOSS_EXITS_def SECRET_CAVE_EXITS_def)

lemma select_relevant_distinct:
  "distinct (fst (select_relevant d b c))" "distinct (snd (select_relevant d b c))"
  using distinct_ALL_ENTRANCES distinct_ALL_EXITS
  unfolding ALL_ENTRANCES_def ALL_EXITS_def select_relevant_def
  by auto

lemma select_relevant_length:
  "length (fst (select_relevant d b c)) = length (snd (select_relevant d b c))"
  by (simp add: select_relevant_def catalog_lengths)

lemma safety_setup_Inr:
  assumes "safety_setup self rel = Inr (rel2, safety, self2)"
  shows "mset rel2 = mset rel \<and> rel2 \<noteq> [] \<and>
         safety = (hd rel2, exit_names_with_no_requirements (options self)) \<and>
         entrance_name (hd rel2) \<in> set (entrance_names_with_no_requirements (options self)) \<and>
         same_outside_loop self self2 \<and> entrance_connections self2 = entrance_connections self"
proof -
  let ?poss = "filter (\<lambda>e. entrance_name e \<in> set (entrance_names_with_no_requirements (options self))) rel"
  from assms obtain se r' where ch: "rng_choice ?poss (rng self) = Inr (se, r')"
    and se: "se \<in> set rel" and rel2: "rel2 = se # remove1 se rel"
    and saf: "safety = (se, exit_names_with_no_requirements (options self))"
    and s2: "self2 = self\<lparr>rng := r'\<rparr>"
    by (auto simp: safety_setup_def Let_def split: sum.splits if_splits)
  from rng_choice_in[OF ch] have "entrance_name se \<in> set (entrance_names_with_no_requirements (options self))"
    by simp
  with se rel2 saf s2 show ?thesis by (simp add: same_outside_loop_def)
qed

lemma after_loop_cases:
  assumes "(case L of None \<Rightarrow> None
            | Some (Some err, st, s3) \<Rightarrow> Some (Some err, st, s3)
            | Some (None, st, s3) \<Rightarrow> (case fin st s3 of (res, s4) \<Rightarrow> Some (res, st, s4)))
           = Some (res, st, self')"
  shows "\<exists>res0 self3. L = Some (res0, st, self3) \<and>
           (case res0 of Some err \<Rightarrow> res = Some err \<and> self' = self3
            | None \<Rightarrow> (res, self') = fin st self3)"
proof (cases L)
  case None
  with assms show ?thesis by simp
next
  case (Some trip)
  obtain res0 st0 self3 where trip: "trip = (res0, st0, self3)" by (cases trip)
  show ?thesis
  proof (cases res0)
    case None
    with assms Some trip have "st0 = st" "(res, self') = fin st self3"
      by (auto split: prod.splits)
    with Some trip None show ?thesis by simp
  next
    case (Some err)
    with assms \<open>L = Some trip\<close> trip have "st0 = st" "res = Some err" "self' = self3"
      by auto
    with \<open>L = Some trip\<close> trip Some show ?thesis by simp
  qed
qed

lemma run_decompose:
  assumes run: "randomize_one_set_of_entrances d b c self = Some (res, st, self')"
    and sel: "select_relevant d b c = (E, X)"
  shows "\<exists>pending safety self1.
      mset pending = mset E \<and>
      (safety = None \<or> (pending \<noteq> [] \<and>
          safety = Some (hd pending, exit_names_with_no_requirements (options self)) \<and>
          entrance_name (hd pending) \<in> set (entrance_names_with_no_requirements (options self)) \<and>
          doing_progress_entrances_for_dungeons_and_caves_only_start self d c)) \<and>
      same_outside_loop self self1 \<and> entrance_connections self1 = entrance_connections self \<and>
      ((res \<noteq> None \<and> st = start_state pending X \<and> self' = self1) \<or>
       (\<exists>res0 self3.
          assignment_loop (race_mode (options self)) safety (start_state pending X) self1
            = Some (res0, st, self3) \<and>
          (case res0 of
             Some err \<Rightarrow> res = Some err \<and> self' = self3
           | None \<Rightarrow> (res, self') = finish_run d b X (done_exits_to_entrances st) self3)))"
proof -
  obtain sh r1 where shf: "rng_shuffle E (rng self) = (sh, r1)" by (cases "rng_shuffle E (rng self)")
  define self1 where "self1 = self\<lparr>rng := r1\<rparr>"
  define rel1 where "rel1 = (if race_mode (options self) then island_grouping_reorder sh else sh)"
  have m_sh: "mset sh = mset E" using rng_shuffle_mset[of E "rng self"] shf by simp
  have m1: "mset rel1 = mset E" by (simp add: rel1_def island_grouping_reorder_mset m_sh)
  have so1: "same_outside_loop self self1" by (simp add: same_outside_loop_def self1_def)
  have doing_eq: "doing_progress_entrances_for_dungeons_and_caves_only_start self1 d c =
                  doing_progress_entrances_for_dungeons_and_caves_only_start self d c"
    by (simp add: doing_progress_entrances_for_dungeons_and_caves_only_start_def self1_def)
  show ?thesis
  proof (cases "doing_progress_entrances_for_dungeons_and_caves_only_start self d c")
    case False
    with run sel shf have "(case assignment_loop (race_mode (options self)) None (start_state rel1 X) self1 of
            None \<Rightarrow> None
          | Some (Some err, st, s3) \<Rightarrow> Some (Some err, st, s3)
          | Some (None, st, s3) \<Rightarrow>
              (case finish_run d b X (done_exits_to_entrances st) s3 of (res, s4) \<Rightarrow> Some (res, st, s4)))
          = Some (res, st, self')"
      unfolding randomize_one_set_of_entrances_def Let_def
      by (simp add: doing_eq[unfolded self1_def] self1_def rel1_def start_state_def)
    from after_loop_cases[OF this]
    have "\<exists>res0 self3.
          assignment_loop (race_mode (options self)) None (start_state rel1 X) self1 = Some (res0, st, self3) \<and>
          (case res0 of Some err \<Rightarrow> res = Some err \<and> self' = self3
           | None \<Rightarrow> (res, self') = finish_run d b X (done_exits_to_entrances st) self3)" .
    with m1 so1 show ?thesis
      by (intro exI[of _ rel1] exI[of _ None] exI[of _ self1]) (auto simp: self1_def)
  next
    case True
    show ?thesis
    proof (cases "safety_setup self1 rel1")
      case (Inl err)
      with run sel shf True have "res \<noteq> None \<and> st = start_state rel1 X \<and> self' = self1"
        unfolding randomize_one_set_of_entrances_def Let_def
        by (auto simp: doing_eq[unfolded self1_def] self1_def rel1_def start_state_def
                 split: option.splits prod.splits)
      with m1 so1 sel show ?thesis
        by (intro exI[of _ rel1] exI[of _ None] exI[of _ self1]) (auto simp: self1_def)
    next
      case (Inr trip)
      obtain rel2 safety self2 where trip: "trip = (rel2, safety, self2)" by (cases trip)
      from safety_setup_Inr[OF Inr[unfolded trip]]
      have p: "mset rel2 = mset rel1" "rel2 \<noteq> []"
        "safety = (hd rel2, exit_names_with_no_requirements (options self1))"
        "entrance_name (hd rel2) \<in> set (entrance_names_with_no_requirements (options self1))"
        "same_outside_loop self1 self2" "entrance_connections self2 = entrance_connections self1"
        by simp_all
      have opts: "options self2 = options self" "options self1 = options self"
        using p(5) so1 by (simp_all add: same_outside_loop_def)
      have Inr': "safety_setup self1 rel1 = Inr (rel2, safety, self2)" using Inr trip by simp
      from run sel shf True have "(case assignment_loop (race_mode (options self)) (Some safety) (start_state rel2 X) self2 of
            None \<Rightarrow> None
          | Some (Some err, st, s3) \<Rightarrow> Some (Some err, st, s3)
          | Some (None, st, s3) \<Rightarrow>
              (case finish_run d b X (done_exits_to_entrances st) s3 of (res, s4) \<Rightarrow> Some (res, st, s4)))
          = Some (res, st, self')"
        unfolding randomize_one_set_of_entrances_def Let_def
        using Inr'[unfolded self1_def rel1_def] doing_eq[unfolded self1_def]
        by (simp add: opts start_state_def)
      from after_loop_cases[OF this]
      have "\<exists>res0 self3.
          assignment_loop (race_mode (options self)) (Some safety) (start_state rel2 X) self2 = Some (res0, st, self3) \<and>
          (case res0 of Some err \<Rightarrow> res = Some err \<and> self' = self3
           | None \<Rightarrow> (res, self') = finish_run d b X (done_exits_to_entrances st) self3)" .
      moreover have "same_outside_loop self self2"
        using p(5) so1 by (simp add: same_outside_loop_def)
      moreover have "entrance_connections self2 = entrance_connections self"
        using p(6) by (simp add: self1_def)
      ultimately show ?thesis using p m1 True opts
        by (intro exI[of _ rel2] exI[of _ "Some safety"] exI[of _ self2]) auto
    qed
  qed
qed






subsection \<open>The connections of a run that returns\<close>





subsection \<open>The order of the batches\<close>

lemma boss_names_not_safe:
  "\<forall>x \<in> set BOSS_EXITS. unique_name x \<notin> set (DUNGEON_EXIT_NAMES_WITH_NO_REQUIREMENTS @
      PUZZLE_SECRET_CAVE_EXIT_NAMES_WITH_NO_REQUIREMENTS @
      COMBAT_SECRET_CAVE_EXIT_NAMES_WITH_NO_REQUIREMENTS)"
  by code_simp

lemma boss_exit_not_safe:
  "x \<in> set BOSS_EXITS \<Longrightarrow> unique_name x \<notin> set (exit_names_with_no_requirements opts)"
  using boss_names_not_safe by (auto simp: exit_names_with_no_requirements_def split: if_splits)

lemma boss_candidate_no_dungeon_left:
  assumes zx: "zx \<in> set (possible_remaining_exits race safety ze remaining d)"
    and boss: "zx \<in> set BOSS_EXITS"
    and saf: "safety = None \<or> (\<exists>se opts. safety = Some (se, exit_names_with_no_requirements opts))"
  shows "set remaining \<inter> set DUNGEON_EXITS = {}"
proof -
  define p1 where "p1 = (case safety of None \<Rightarrow> remaining
      | Some (safety_entrance, exit_names) \<Rightarrow>
          if ze = safety_entrance then filter (\<lambda>e. unique_name e \<in> set exit_names) remaining
          else remaining)"
  define p2 where "p2 = (if \<exists>e \<in> set p1. e \<in> set DUNGEON_EXITS
      then filter (\<lambda>e. e \<notin> set BOSS_EXITS) remaining else p1)"
  from zx have in2: "zx \<in> set p2"
    unfolding possible_remaining_exits_def Let_def p1_def[symmetric] p2_def[symmetric]
    by (auto split: if_splits)
  have nod: "\<not> (\<exists>e \<in> set p1. e \<in> set DUNGEON_EXITS)"
  proof
    assume "\<exists>e \<in> set p1. e \<in> set DUNGEON_EXITS"
    then have "p2 = filter (\<lambda>e. e \<notin> set BOSS_EXITS) remaining" by (simp add: p2_def)
    with in2 boss show False by simp
  qed
  then have "p2 = p1" by (simp add: p2_def)
  with in2 have in1: "zx \<in> set p1" by simp
  have "p1 = remaining"
  proof (rule ccontr)
    assume ne: "p1 \<noteq> remaining"
    with saf obtain se opts where s: "safety = Some (se, exit_names_with_no_requirements opts)"
      by (auto simp: p1_def)
    with ne have "p1 = filter (\<lambda>e. unique_name e \<in> set (exit_names_with_no_requirements opts)) remaining"
      by (auto simp: p1_def split: if_splits)
    with in1 have "unique_name zx \<in> set (exit_names_with_no_requirements opts)" by simp
    with boss_exit_not_safe[OF boss] show False by simp
  qed
  with nod show ?thesis by auto
qed

lemma assignment_loop_rule_full:
  assumes run: "assignment_loop race safety st self = Some (res, st', self')"
    and init: "I st self"
    and dfr: "\<And>st self ze rest. I st self \<Longrightarrow> relevant_entrances st = ze # rest \<Longrightarrow>
        get_outermost_entrance_for_entrance ze (done_exits_to_entrances st) = Inr None \<Longrightarrow>
        I (st\<lparr>relevant_entrances := rest @ [ze]\<rparr>) self"
    and place: "\<And>st self ze rest outer zx r'. I st self \<Longrightarrow> relevant_entrances st = ze # rest \<Longrightarrow>
        get_outermost_entrance_for_entrance ze (done_exits_to_entrances st) = Inr (Some outer) \<Longrightarrow>
        zx \<in> set (possible_remaining_exits race safety ze (remaining_exits st)
                    (done_entrances_to_exits st)) \<Longrightarrow>
        I (placed st ze rest zx) (connected self ze zx r')"
  shows "\<exists>st1 pend. I st1 self' \<and> st' = st1\<lparr>relevant_entrances := pend\<rparr>"
proof -
  define P where "P \<equiv> \<lambda>(race'::bool) (safety'::(ZoneEntrance \<times> string list) option) st self
      (y :: error option \<times> assignment \<times> randomizer).
      (race', safety') = (race, safety) \<longrightarrow> I st self \<longrightarrow>
        (\<exists>st1 pend. I st1 (snd (snd y)) \<and> fst (snd y) = st1\<lparr>relevant_entrances := pend\<rparr>)"
  have "P race safety st self (res, st', self')"
  proof (rule assignment_loop.raw_induct[where P=P, OF _ run], goal_cases)
    case (1 loop race' safety' st self y)
    show ?case unfolding P_def
    proof (intro impI)
      assume eqs0: "(race', safety') = (race, safety)" and inv: "I st self"
      from eqs0 have eqs: "race' = race" "safety' = safety" by simp_all
      have keep: "\<exists>st1 pend. I st1 self \<and> st\<lparr>relevant_entrances := rest\<rparr> = st1\<lparr>relevant_entrances := pend\<rparr>" for rest
        using inv by blast
      show "\<exists>st1 pend. I st1 (snd (snd y)) \<and> fst (snd y) = st1\<lparr>relevant_entrances := pend\<rparr>"
      proof (cases "relevant_entrances st")
        case Nil
        with 1(2) have "y = (None, st, self)" by simp
        moreover have "st = st\<lparr>relevant_entrances := []\<rparr>" using Nil by simp
        ultimately show ?thesis using inv by (metis fst_conv snd_conv)
      next
        case (Cons ze rest)
        show ?thesis
        proof (cases "get_outermost_entrance_for_entrance ze (done_exits_to_entrances st)")
          case (Inl err)
          with 1(2) Cons have "y = (Some err, st\<lparr>relevant_entrances := rest\<rparr>, self)" by simp
          with keep[of rest] show ?thesis by simp
        next
          case (Inr outer_opt)
          show ?thesis
          proof (cases outer_opt)
            case None
            with 1(2) Cons Inr have "loop race' safety' (st\<lparr>relevant_entrances := rest @ [ze]\<rparr>) self = Some y"
              by simp
            from 1(1)[OF this] eqs dfr[OF inv Cons] Inr None show ?thesis by (simp add: P_def)
          next
            case (Some outer)
            let ?poss = "possible_remaining_exits race' safety' ze (remaining_exits st) (done_entrances_to_exits st)"
            show ?thesis
            proof (cases "?poss = []")
              case True
              with 1(2) Cons Inr Some
              have "y = (Some (NoValidExits (entrance_name ze)), st\<lparr>relevant_entrances := rest\<rparr>, self)"
                by (simp add: Let_def)
              with keep[of rest] show ?thesis by simp
            next
              case False
              then obtain zx r' where ch: "rng_choice ?poss (rng self) = Inr (zx, r')"
                using rng_choice_nonempty by blast
              then have zx_in: "zx \<in> set ?poss" by (rule rng_choice_in)
              from 1(2) Cons Inr Some False ch
              have "loop race' safety' (placed st ze rest zx) (connected self ze zx r') = Some y"
                by (simp add: Let_def placed_def connected_def)
              from 1(1)[OF this] eqs place[OF inv Cons _ , of outer zx r'] Inr Some zx_in
              show ?thesis by (simp add: P_def)
            qed
          qed
        qed
      qed
    qed
  qed
  with init show ?thesis by (simp add: P_def)
qed

lemma snoc_eq_split:
  assumes "xs @ [a] = pre @ b # post"
  shows "(post = [] \<and> xs = pre \<and> a = b) \<or> (\<exists>post'. post = post' @ [a] \<and> xs = pre @ b # post')"
proof (cases post rule: rev_cases)
  case Nil
  with assms show ?thesis by simp
next
  case (snoc post' c)
  with assms have "xs @ [a] = (pre @ b # post') @ [c]" by simp
  then have "xs = pre @ b # post'" "a = c" by simp_all
  with snoc show ?thesis by simp
qed

lemma boss_before_dungeons_place:
  assumes wf: "wf_state E X st" and pend: "relevant_entrances st = ze # rest"
    and inv: "boss_before_dungeons X (done_entrances_to_exits st)"
    and zx: "zx \<in> set (possible_remaining_exits race safety ze (remaining_exits st)
                    (done_entrances_to_exits st))"
    and saf: "safety = None \<or> (\<exists>se opts. safety = Some (se, exit_names_with_no_requirements opts))"
  shows "boss_before_dungeons X (done_entrances_to_exits (placed st ze rest zx))"
proof -
  let ?d = "done_entrances_to_exits st"
  from wf pend have ze_new: "ze \<notin> fst ` set ?d" unfolding wf_state_def by auto
  have d': "done_entrances_to_exits (placed st ze rest zx) = ?d @ [(ze, zx)]"
    by (simp add: placed_def update_new[OF ze_new])
  have part: "set (remaining_exits st) \<union> snd ` set ?d = set X"
    using wf unfolding wf_state_def by simp
  show ?thesis unfolding boss_before_dungeons_def d'
  proof (intro allI impI)
    fix pre e x post
    assume h: "?d @ [(ze, zx)] = pre @ (e, x) # post \<and> x \<in> set BOSS_EXITS"
    from snoc_eq_split[of ?d "(ze, zx)" pre "(e, x)" post] h
    consider (last) "post = []" "?d = pre" "(ze, zx) = (e, x)"
      | (earlier) post' where "post = post' @ [(ze, zx)]" "?d = pre @ (e, x) # post'"
      by blast
    then show "set X \<inter> set DUNGEON_EXITS \<subseteq> snd ` set pre"
    proof cases
      case last
      with h have "zx \<in> set BOSS_EXITS" by simp
      from boss_candidate_no_dungeon_left[OF zx this saf]
      have "set (remaining_exits st) \<inter> set DUNGEON_EXITS = {}" .
      with part last(2) show ?thesis by auto
    next
      case earlier
      with inv h show ?thesis unfolding boss_before_dungeons_def by blast
    qed
  qed
qed

lemma loop_boss_before_dungeons:
  assumes run: "assignment_loop race safety st self = Some (res, st', self')"
    and wf: "wf_state E X st"
    and inv: "boss_before_dungeons X (done_entrances_to_exits st)"
    and saf: "safety = None \<or> (\<exists>se opts. safety = Some (se, exit_names_with_no_requirements opts))"
  shows "boss_before_dungeons X (done_entrances_to_exits st')"
proof -
  have "\<exists>st1 pend. (wf_state E X st1 \<and> boss_before_dungeons X (done_entrances_to_exits st1))
          \<and> st' = st1\<lparr>relevant_entrances := pend\<rparr>"
  proof (rule assignment_loop_rule_full[where
        I = "\<lambda>st self. wf_state E X st \<and> boss_before_dungeons X (done_entrances_to_exits st)",
        OF run], goal_cases)
    case 1
    from wf inv show ?case by simp
  next
    case (2 st self ze rest)
    then show ?case by (simp add: wf_defer)
  next
    case (3 st self ze rest outer zx r')
    then have "wf_state E X (placed st ze rest zx)"
      using possible_subset by (blast intro: wf_place)
    moreover have "boss_before_dungeons X (done_entrances_to_exits (placed st ze rest zx))"
      using 3 saf by (blast intro: boss_before_dungeons_place)
    ultimately show ?case by simp
  qed
  then show ?thesis by auto
qed

lemma start_state_wf:
  assumes m: "mset pending = mset E" and dE: "distinct E" and dX: "distinct X"
    and len: "length E = length X"
  shows "wf_state E X (start_state pending X)"
proof -
  have "distinct pending" using m dE by (metis distinct_count_atmost_1 set_mset_mset count_mset)
  moreover have "set pending = set E" using m by (metis set_mset_mset)
  moreover have "length pending = length X" using m len by (metis size_mset)
  ultimately show ?thesis using dX by (intro wf_start) auto
qed

text \<open>
  Claim C2, as amended. In every run that returns, with or without an exception, and for
  every connection to a Boss exit in the order of connection: all Dungeon exits selected
  for the run were connected before it. (The test of the loop looks for Dungeon exits
  only; secret-cave exits may still be unplaced.)
\<close>

theorem boss_exit_only_after_dungeon_exits:
  assumes run: "randomize_one_set_of_entrances d b c self = Some (res, st, self')"
    and split: "done_entrances_to_exits st = pre @ (e, x) # post"
    and boss: "x \<in> set BOSS_EXITS"
  shows "set (snd (select_relevant d b c)) \<inter> set DUNGEON_EXITS \<subseteq> snd ` set pre"
proof -
  obtain E X where sel: "select_relevant d b c = (E, X)" by (cases "select_relevant d b c")
  have dE: "distinct E" and dX: "distinct X" and len: "length E = length X"
    using select_relevant_distinct[of d b c] select_relevant_length[of d b c] sel by simp_all
  from run_decompose[OF run sel] obtain pending safety self1 where
    m: "mset pending = mset E" and
    saf: "safety = None \<or> safety = Some (hd pending, exit_names_with_no_requirements (options self))" and
    alt: "(st = start_state pending X) \<or>
       (\<exists>res0 self3. assignment_loop (race_mode (options self)) safety (start_state pending X) self1
            = Some (res0, st, self3))"
    by blast
  have "boss_before_dungeons X (done_entrances_to_exits st)"
  proof -
    have start: "boss_before_dungeons X (done_entrances_to_exits (start_state pending X))"
      by (simp add: boss_before_dungeons_def start_state_def)
    from alt show ?thesis
    proof
      assume "st = start_state pending X"
      with start show ?thesis by simp
    next
      assume "\<exists>res0 self3. assignment_loop (race_mode (options self)) safety (start_state pending X) self1
            = Some (res0, st, self3)"
      then obtain res0 self3 where loop: "assignment_loop (race_mode (options self)) safety
          (start_state pending X) self1 = Some (res0, st, self3)" by blast
      from saf have saf': "safety = None \<or> (\<exists>se opts. safety = Some (se, exit_names_with_no_requirements opts))"
        by blast
      from loop_boss_before_dungeons[OF loop start_state_wf[OF m dE dX len] start saf']
      show ?thesis .
    qed
  qed
  with split boss sel show ?thesis unfolding boss_before_dungeons_def by auto
qed

lemma nested_example_run:
  "\<exists>st self'. randomize_one_set_of_entrances True True False zero_draws_self = Some (None, st, self')
     \<and> 5 < length (done_entrances_to_exits st)
     \<and> snd (done_entrances_to_exits st ! 5) \<in> set BOSS_EXITS"
proof -
  have "(case randomize_one_set_of_entrances True True False zero_draws_self of
           Some (None, st, _) \<Rightarrow> 5 < length (done_entrances_to_exits st)
              \<and> snd (done_entrances_to_exits st ! 5) \<in> set BOSS_EXITS
         | _ \<Rightarrow> False)"
    by code_simp
  then show ?thesis by (auto split: option.splits prod.splits)
qed

text \<open>
  The run over dungeons and bosses in which every draw is 0 returns; its sixth connection
  leads to a Boss exit, and the five before it lead to the five Dungeon exits.
\<close>

theorem boss_exit_only_after_dungeon_exits_witness:
  "\<exists>st self'. randomize_one_set_of_entrances True True False zero_draws_self = Some (None, st, self')
     \<and> snd (done_entrances_to_exits st ! 5) \<in> set BOSS_EXITS
     \<and> set DUNGEON_EXITS \<subseteq> snd ` set (take 5 (done_entrances_to_exits st))"
proof -
  from nested_example_run obtain st self' where
    run: "randomize_one_set_of_entrances True True False zero_draws_self = Some (None, st, self')"
    and len: "5 < length (done_entrances_to_exits st)"
    and boss: "snd (done_entrances_to_exits st ! 5) \<in> set BOSS_EXITS"
    by blast
  have split: "done_entrances_to_exits st = take 5 (done_entrances_to_exits st) @
      (fst (done_entrances_to_exits st ! 5), snd (done_entrances_to_exits st ! 5)) #
      drop (Suc 5) (done_entrances_to_exits st)"
    using id_take_nth_drop[OF len] by simp
  from boss_exit_only_after_dungeon_exits[OF run split boss] run boss show ?thesis
    by (auto simp: select_relevant_def)
qed

text \<open>
  Claim C2 as stated also asks that every selected secret-cave exit is placed before the
  first Boss exit. In the run over all three categories in which every draw is 0, the
  first seven exits connected are the five Dungeon exits and then two Boss exits: the Boss
  exit ``Gohma Boss Arena'' is chosen sixth, while none of the twenty selected secret-cave
  exits has been placed.
\<close>

theorem boss_exit_before_caves_counterexample:
  "map_option (map_prod id (map (unique_name \<circ> snd) \<circ> take 7 \<circ> done_entrances_to_exits \<circ> fst))
     (randomize_one_set_of_entrances True True True zero_draws_self)
   = Some (None, [''Dragon Roost Cavern'', ''Forbidden Woods'', ''Tower of the Gods'',
        ''Earth Temple'', ''Wind Temple'', ''Gohma Boss Arena'', ''Kalle Demos Boss Arena''])
   \<and> ''Gohma Boss Arena'' \<in> set (map unique_name BOSS_EXITS)
   \<and> set [''Dragon Roost Cavern'', ''Forbidden Woods'', ''Tower of the Gods'',
        ''Earth Temple'', ''Wind Temple'', ''Gohma Boss Arena'', ''Kalle Demos Boss Arena'']
       \<inter> set (map unique_name SECRET_CAVE_EXITS) = {}
   \<and> length SECRET_CAVE_EXITS = 20"
  by code_simp


subsection \<open>The safety entrance\<close>

text \<open>
  Claim C3 fails in the code. With the dungeons alone selected, a start restricted to
  dungeons and caves and the dungeons as progression locations, the safety entrance is the
  dungeon entrance on Dragon Roost Island and the only exit without requirements is
  ``Dragon Roost Cavern''. The candidates of the safety entrance are first filtered to
  that exit, but since a Dungeon exit is among them they are then rebuilt from all
  remaining exits, and the draw 1 connects the safety entrance to ``Forbidden Woods''.
\<close>

theorem safety_entrance_exit_counterexample:
  "map_option (map_prod id (map (map_prod entrance_name unique_name) \<circ> take 1
       \<circ> done_entrances_to_exits \<circ> fst))
     (randomize_one_set_of_entrances True False False example_safety_self)
     = Some (None, [(''Dungeon Entrance on Dragon Roost Island'', ''Forbidden Woods'')])
   \<and> doing_progress_entrances_for_dungeons_and_caves_only_start example_safety_self True False
   \<and> entrance_names_with_no_requirements (options example_safety_self)
       = [''Dungeon Entrance on Dragon Roost Island'']
   \<and> exit_names_with_no_requirements (options example_safety_self) = [''Dragon Roost Cavern'']"
  by code_simp


subsection \<open>Entrances without an island in race mode\<close>




end
